theory Spec2Isabelle
  imports Complex_Main
begin

section \<open>Python values shared by the whole module\<close>

text \<open>
  The module \<^verbatim>\<open>vol2mesh.py\<close> works on byte strings, on Python integers and on
  numpy arrays. A byte string is a list of characters (an Isabelle \<^typ>\<open>char\<close> is one
  byte), a Python integer is an \<^typ>\<open>int\<close>. Every exception the modelled code can
  raise is a constructor of \<open>error\<close>, carrying the message of the exception.
\<close>

type_synonym bytes = string

datatype error =
    ValueError string
  | AssertionError string
  | RuntimeError string
  | IndexError string
  | OSError string

text \<open>
  Sequencing of computations that may raise: \<open>raising m f\<close> runs \<open>f\<close> on the
  value of \<open>m\<close>, and an exception of \<open>m\<close> propagates.
\<close>

definition raising :: "error + 'a \<Rightarrow> ('a \<Rightarrow> error + 'b) \<Rightarrow> error + 'b" where
  "raising m f = (case m of Inl e \<Rightarrow> Inl e | Inr v \<Rightarrow> f v)"

text \<open>Decimal rendering of an integer, as \<^verbatim>\<open>str(n)\<close> and \<^verbatim>\<open>f"{n}"\<close> give it.\<close>

fun str_nat :: "nat \<Rightarrow> string" where
  "str_nat n =
     (if n < 10 then [''0123456789'' ! n]
      else str_nat (n div 10) @ [''0123456789'' ! (n mod 10)])"

declare str_nat.simps [simp del]

definition str_int :: "int \<Rightarrow> string" where
  "str_int i = (if i < 0 then CHR ''-'' # str_nat (nat (- i)) else str_nat (nat i))"

section \<open>Three-dimensional arrays\<close>

text \<open>
  A numpy array of rank three is its shape together with its elements, held as nested
  lists in row-major order: \<open>data3 a ! i ! j ! k\<close> is \<^verbatim>\<open>a[i, j, k]\<close>. The shape is
  kept explicitly because an array with an empty axis still has a full shape.
  \<open>wf3\<close> says that the nested lists have the lengths the shape announces, which
  every numpy array satisfies.
\<close>

record 'a ndarray3 =
  shape3 :: "nat \<times> nat \<times> nat"
  data3 :: "'a list list list"

definition wf3 :: "'a ndarray3 \<Rightarrow> bool" where
  "wf3 a =
     (case shape3 a of (n0, n1, n2) \<Rightarrow>
        length (data3 a) = n0 \<and>
        (\<forall>p \<in> set (data3 a). length p = n1 \<and> (\<forall>r \<in> set p. length r = n2)))"

definition at3 :: "'a ndarray3 \<Rightarrow> nat \<Rightarrow> nat \<Rightarrow> nat \<Rightarrow> 'a" where
  "at3 a i j k = data3 a ! i ! j ! k"

text \<open>
  \<^verbatim>\<open>np.where(a > 0)\<close>: the indices of the elements that are greater than zero, in
  row-major order, returned as one index array per axis.
\<close>

definition argwhere_gt0 :: "int ndarray3 \<Rightarrow> (nat \<times> nat \<times> nat) list" where
  "argwhere_gt0 a =
     (case shape3 a of (n0, n1, n2) \<Rightarrow>
        [(i, j, k). i \<leftarrow> [0..<n0], j \<leftarrow> [0..<n1], k \<leftarrow> [0..<n2], at3 a i j k > 0])"

definition np_where_gt0 :: "int ndarray3 \<Rightarrow> int list \<times> int list \<times> int list" where
  "np_where_gt0 a =
     (let idx = argwhere_gt0 a
      in (map (\<lambda>(i, j, k). int i) idx,
          map (\<lambda>(i, j, k). int j) idx,
          map (\<lambda>(i, j, k). int k) idx))"

section \<open>findBBDimensions\<close>

text \<open>
  Python's \<^verbatim>\<open>min\<close> and \<^verbatim>\<open>max\<close> raise \<^verbatim>\<open>ValueError\<close> on an empty sequence.
\<close>

definition py_min :: "int list \<Rightarrow> error + int" where
  "py_min xs =
     (case xs of
        [] \<Rightarrow> Inl (ValueError ''min() arg is an empty sequence'')
      | x # rest \<Rightarrow> Inr (fold min rest x))"

definition py_max :: "int list \<Rightarrow> error + int" where
  "py_max xs =
     (case xs of
        [] \<Rightarrow> Inl (ValueError ''max() arg is an empty sequence'')
      | x # rest \<Rightarrow> Inr (fold max rest x))"

text \<open>
  \<^verbatim>\<open>findBBDimensions(listOfPixels)\<close> (lines 21-39). The six calls are made in the
  order of the source, so the first empty list decides which exception is raised.
\<close>

definition findBBDimensions ::
  "int list \<times> int list \<times> int list \<Rightarrow> error + (int list \<times> int list)" where
  "findBBDimensions listOfPixels =
     (case listOfPixels of (xs, ys, zs) \<Rightarrow>
        raising (py_min xs) (\<lambda>minxs.
        raising (py_max xs) (\<lambda>maxxs.
        raising (py_min ys) (\<lambda>minys.
        raising (py_max ys) (\<lambda>maxys.
        raising (py_min zs) (\<lambda>minzs.
        raising (py_max zs) (\<lambda>maxzs.
          (let dx = maxxs - minxs;
               dy = maxys - minys;
               dz = maxzs - minzs
           in Inr ([minxs, maxxs + 1, minys, maxys + 1, minzs, maxzs + 1],
                   [dx, dy, dz])))))))))"

section \<open>Cropping and padding in calcMeshWithCrop\<close>

text \<open>
  A Python slice \<^verbatim>\<open>xs[a:b]\<close> with integer bounds: a negative bound counts from the
  end, and both bounds are clamped to the length, so a slice never raises.
\<close>

definition slice_bound :: "nat \<Rightarrow> int \<Rightarrow> nat" where
  "slice_bound n i = (if i < 0 then nat (max 0 (i + int n)) else min n (nat i))"

definition slice_len :: "nat \<Rightarrow> int \<Rightarrow> int \<Rightarrow> nat" where
  "slice_len n a b = slice_bound n b - slice_bound n a"

definition py_slice :: "int \<Rightarrow> int \<Rightarrow> 'a list \<Rightarrow> 'a list" where
  "py_slice a b xs =
     take (slice_len (length xs) a b) (drop (slice_bound (length xs) a) xs)"

text \<open>
  Line 157: \<^verbatim>\<open>window = labelStack[box[0]:box[1], box[2]:box[3], box[4]:box[5]]\<close>.
\<close>

definition crop_window :: "'a ndarray3 \<Rightarrow> int list \<Rightarrow> 'a ndarray3" where
  "crop_window labelStack box =
     (case shape3 labelStack of (n0, n1, n2) \<Rightarrow>
        \<lparr>shape3 = (slice_len n0 (box ! 0) (box ! 1),
                   slice_len n1 (box ! 2) (box ! 3),
                   slice_len n2 (box ! 4) (box ! 5)),
         data3 = map (\<lambda>plane. map (\<lambda>row. py_slice (box ! 4) (box ! 5) row)
                                   (py_slice (box ! 2) (box ! 3) plane))
                     (py_slice (box ! 0) (box ! 1) (data3 labelStack))\<rparr>)"

text \<open>\<^verbatim>\<open>np.zeros(shape, dtype=bool)\<close>.\<close>

definition np_zeros :: "nat \<times> nat \<times> nat \<Rightarrow> bool ndarray3" where
  "np_zeros shp =
     (case shp of (n0, n1, n2) \<Rightarrow>
        \<lparr>shape3 = shp, data3 = replicate n0 (replicate n1 (replicate n2 False))\<rparr>)"

text \<open>
  An index into an axis of length \<open>n\<close>: numpy accepts \<open>-n \<le> i < n\<close>, a negative
  index counting from the end, and raises \<^verbatim>\<open>IndexError\<close> otherwise.
\<close>

definition np_index :: "nat \<Rightarrow> int \<Rightarrow> error + nat" where
  "np_index n i =
     (if - int n \<le> i \<and> i < int n then Inr (nat (if i < 0 then i + int n else i))
      else Inl (IndexError ''index is out of bounds''))"

definition setitem3 :: "'a ndarray3 \<Rightarrow> int \<times> int \<times> int \<Rightarrow> 'a \<Rightarrow> error + 'a ndarray3" where
  "setitem3 a p x =
     (case shape3 a of (n0, n1, n2) \<Rightarrow>
      case p of (i, j, k) \<Rightarrow>
        raising (np_index n0 i) (\<lambda>i'.
        raising (np_index n1 j) (\<lambda>j'.
        raising (np_index n2 k) (\<lambda>k'.
          Inr (a\<lparr>data3 :=
                 (data3 a)[i' := (data3 a ! i')[j' := (data3 a ! i' ! j')[k' := x]]]\<rparr>)))))"

text \<open>
  Assignment through three index lists, \<^verbatim>\<open>a[(I, J, K)] = x\<close>: the element at
  \<^verbatim>\<open>(I[t], J[t], K[t])\<close> is set for every position \<open>t\<close>. The three lists come
  from one call of \<^verbatim>\<open>np.where\<close> and have the same length.
\<close>

fun setitem_points :: "'a ndarray3 \<Rightarrow> (int \<times> int \<times> int) list \<Rightarrow> 'a \<Rightarrow> error + 'a ndarray3" where
  "setitem_points a [] x = Inr a"
| "setitem_points a (p # ps) x = raising (setitem3 a p x) (\<lambda>a'. setitem_points a' ps x)"

text \<open>
  Lines 158-165: the zero-initialised boolean array \<^verbatim>\<open>blankImg\<close>, two voxels larger
  than \<^verbatim>\<open>window\<close> on each axis, with the voxels of the window that are greater than
  zero set at their index plus one.
\<close>

definition blankImg :: "int ndarray3 \<Rightarrow> error + bool ndarray3" where
  "blankImg window =
     (case np_where_gt0 window of (l0, l1, l2) \<Rightarrow>
        (let paddedWindowSize = (case shape3 window of (n0, n1, n2) \<Rightarrow> (n0 + 2, n1 + 2, n2 + 2))
         in setitem_points (np_zeros paddedWindowSize)
              (zip (map (\<lambda>i. i + 1) l0) (zip (map (\<lambda>i. i + 1) l1) (map (\<lambda>i. i + 1) l2)))
              True))"

text \<open>
  Lines 153-165 of \<^verbatim>\<open>calcMeshWithCrop\<close>: bounding box, crop and padding, up to the
  array that is handed to the isosurface routine.
\<close>

definition calcMeshWithCrop_blankImg :: "int ndarray3 \<Rightarrow> error + bool ndarray3" where
  "calcMeshWithCrop_blankImg labelStack =
     raising (findBBDimensions (np_where_gt0 labelStack))
       (\<lambda>(box, dimensions). blankImg (crop_window labelStack box))"

section \<open>BytesIO\<close>

text \<open>
  An \<^verbatim>\<open>io.BytesIO\<close> object is a buffer and a position. \<^verbatim>\<open>write\<close> overwrites from
  the position on and extends the buffer (padding with zero bytes when the position is
  beyond the end), \<^verbatim>\<open>seek\<close> sets the position, \<^verbatim>\<open>read()\<close> returns everything from
  the position to the end and leaves the position at the end.
\<close>

record bytesio =
  buf :: bytes
  pos :: nat

definition BytesIO :: "bytes \<Rightarrow> bytesio" where
  "BytesIO initial_bytes = \<lparr>buf = initial_bytes, pos = 0\<rparr>"

definition bio_write :: "bytesio \<Rightarrow> bytes \<Rightarrow> bytesio" where
  "bio_write s b =
     \<lparr>buf = take (pos s) (buf s) @ replicate (pos s - length (buf s)) (CHR 0x00) @ b @
             drop (pos s + length b) (buf s),
      pos = pos s + length b\<rparr>"

definition bio_seek :: "bytesio \<Rightarrow> nat \<Rightarrow> bytesio" where
  "bio_seek s n = s\<lparr>pos := n\<rparr>"

definition bio_read :: "bytesio \<Rightarrow> bytes \<times> bytesio" where
  "bio_read s = (drop (pos s) (buf s), s\<lparr>pos := max (pos s) (length (buf s))\<rparr>)"

section \<open>generate_obj\<close>

text \<open>
  A vertex coordinate is a finite Python float, modelled by the rational number it
  denotes; the infinities and NaN are outside the model. The format \<^verbatim>\<open>.7f\<close> prints
  the correctly rounded decimal expansion with seven digits after the point, ties going
  to the even digit, and a minus sign for a negative number even when every printed
  digit is zero.
\<close>

type_synonym vertex = "rat \<times> rat \<times> rat"
type_synonym face = "int \<times> int \<times> int"

definition round_half_even :: "rat \<Rightarrow> nat" where
  "round_half_even r =
     (let f = nat \<lfloor>r\<rfloor>; d = r - of_nat f
      in if d < 1 / 2 then f
         else if 1 / 2 < d then f + 1
         else if even f then f else f + 1)"

definition digits7 :: "nat \<Rightarrow> string" where
  "digits7 m = map (\<lambda>i. ''0123456789'' ! ((m div 10 ^ i) mod 10)) [6, 5, 4, 3, 2, 1, 0]"

definition fmt7f :: "rat \<Rightarrow> string" where
  "fmt7f x =
     (let n = round_half_even (\<bar>x\<bar> * 10 ^ 7)
      in (if x < 0 then ''-'' else []) @ str_nat (n div 10 ^ 7) @ ''.'' @
         digits7 (n mod 10 ^ 7))"

text \<open>\<^verbatim>\<open>generate_obj(vertices_xyz, faces)\<close> (lines 99-111).\<close>

definition generate_obj :: "vertex list \<Rightarrow> face list \<Rightarrow> bytesio" where
  "generate_obj vertices_xyz faces =
     (let mesh_bytes = BytesIO [];
          mesh_bytes = bio_write mesh_bytes ''# OBJ file\<newline>'';
          mesh_bytes =
            fold (\<lambda>(x, y, z) mb.
                    bio_write mb (''v '' @ fmt7f x @ '' '' @ fmt7f y @ '' '' @ fmt7f z @
                                  ''\<newline>''))
              vertices_xyz mesh_bytes;
          mesh_bytes =
            fold (\<lambda>(v1, v2, v3) mb.
                    bio_write mb (''f '' @ str_int v1 @ '' '' @ str_int v2 @ '' '' @
                                  str_int v3 @ '' \<newline>''))
              faces mesh_bytes
      in bio_seek mesh_bytes 0)"

section \<open>temp_pipe and simplify_mesh\<close>

text \<open>
  The part of the operating system that \<^verbatim>\<open>simplify_mesh\<close> acts on: the file system
  (which paths exist, as a directory or as a named pipe), the counter from which
  \<^verbatim>\<open>tempfile.mkdtemp\<close> draws the next unused directory name, and the command lines of
  the child processes started so far. The operating system calls themselves are taken
  to succeed.
\<close>

datatype node = Directory | Fifo

record world =
  fs :: "string \<rightharpoonup> node"
  next_tmp :: nat
  spawned :: "string list"

definition mkdtemp :: "world \<Rightarrow> string \<times> world" where
  "mkdtemp w =
     (let dir = ''/tmp/tmp'' @ str_nat (next_tmp w)
      in (dir, w\<lparr>fs := (fs w)(dir \<mapsto> Directory), next_tmp := next_tmp w + 1\<rparr>))"

definition mkfifo :: "string \<Rightarrow> world \<Rightarrow> world" where
  "mkfifo path w = w\<lparr>fs := (fs w)(path \<mapsto> Fifo)\<rparr>"

definition unlink :: "string \<Rightarrow> world \<Rightarrow> world" where
  "unlink path w = w\<lparr>fs := (fs w)(path := None)\<rparr>"

definition rmdir :: "string \<Rightarrow> world \<Rightarrow> world" where
  "rmdir dir w = w\<lparr>fs := (fs w)(dir := None)\<rparr>"

text \<open>
  \<^verbatim>\<open>temp_pipe(name)\<close> (lines 41-59) is a generator wrapped by \<^verbatim>\<open>@contextmanager\<close>;
  \<open>temp_pipe name body\<close> is the statement \<^verbatim>\<open>with temp_pipe(name) as path: body\<close>.
  When the body finishes normally the generator is resumed after its \<^verbatim>\<open>yield\<close> and
  runs \<^verbatim>\<open>os.unlink(path)\<close> and \<^verbatim>\<open>os.rmdir(dir)\<close>. When the body raises, the
  exception is thrown into the generator at the \<^verbatim>\<open>yield\<close>; the generator has no
  \<^verbatim>\<open>try\<close> around it, so the exception leaves the generator at once and the two
  statements after the \<^verbatim>\<open>yield\<close> are not run. A body that never returns is the
  value \<open>None\<close>, and then the statement never returns either.
\<close>

definition temp_pipe ::
  "string \<Rightarrow> (string \<Rightarrow> world \<Rightarrow> ((error + 'a) \<times> world) option) \<Rightarrow> world \<Rightarrow>
   ((error + 'a) \<times> world) option" where
  "temp_pipe name body w =
     (case mkdtemp w of (dir, w1) \<Rightarrow>
        (let path = dir @ ''/'' @ name;
             w2 = mkfifo path w1
         in case body path w2 of
              None \<Rightarrow> None
            | Some (Inl e, w3) \<Rightarrow> Some (Inl e, w3)
            | Some (Inr v, w3) \<Rightarrow> Some (Inr v, rmdir dir (unlink path w3))))"

text \<open>The values \<^verbatim>\<open>simplify_mesh\<close> distinguishes in its first argument.\<close>

datatype pyobj = Str string | Bytes bytes | Stream bytesio | Other

text \<open>Line 86: the command line of the child process.\<close>

definition simplify_cmd :: "string \<Rightarrow> string \<Rightarrow> string \<Rightarrow> string" where
  "simplify_cmd mesh_path simple_path ratio =
     ''fq-mesh-simplify '' @ [CHR 0x22] @ mesh_path @ [CHR 0x22] @ '' '' @
     [CHR 0x22] @ simple_path @ [CHR 0x22] @ '' '' @ ratio"

text \<open>
  \<^verbatim>\<open>simplify_mesh(mesh_obj_stream, simplify_ratio)\<close> (lines 62-96). The external
  program is the parameter \<open>fq_mesh_simplify\<close>: from its command line and the bytes
  that the writer thread copies into the request pipe (the stream from its position to
  its end) it gives two things.
  \<^item> What \<^verbatim>\<open>open(simple_path, 'rb')\<close> and \<^verbatim>\<open>f.read()\<close> (lines 91-92) come to:
    \<open>Some (Inr b)\<close> when the child opens the response pipe, writes \<open>b\<close> and closes
    it; \<open>Some (Inl e)\<close> when the open or the read raises; \<open>None\<close> when they block
    for ever, because the child never opens the response pipe for writing (for example
    when it exits at once) or never closes it.
  \<^item> What \<^verbatim>\<open>proc.wait()\<close> (line 94) comes to: \<open>Some c\<close> when the child exits with
    code \<open>c\<close>, \<open>None\<close> when the child never exits.

  The read comes before the wait, so a read that blocks is never followed by the check
  of the exit code: the call does not return, which is the value \<open>None\<close>.
  \<open>str_ratio\<close> is Python's \<^verbatim>\<open>str\<close> on the ratio. The \<^verbatim>\<open>finally\<close> clause raises
  when the exit code is not zero, which replaces both a value being returned and an
  exception being propagated by the \<^verbatim>\<open>try\<close> block.
\<close>

definition simplify_mesh ::
  "(string \<Rightarrow> bytes \<Rightarrow> (error + bytes) option \<times> int option) \<Rightarrow> ('r \<Rightarrow> string) \<Rightarrow>
   pyobj \<Rightarrow> 'r \<Rightarrow> world \<Rightarrow> ((error + bytes) \<times> world) option" where
  "simplify_mesh fq_mesh_simplify str_ratio mesh_obj_stream simplify_ratio w =
     (case mesh_obj_stream of
        Str s \<Rightarrow> Some (Inl (AssertionError ''mesh_obj_stream must be bytes or BytesIO''), w)
      | _ \<Rightarrow>
        (case (case mesh_obj_stream of Bytes b \<Rightarrow> Stream (BytesIO b) | x \<Rightarrow> x) of
           Stream stream \<Rightarrow>
             temp_pipe ''mesh.obj'' (\<lambda>mesh_path.
             temp_pipe ''simple.obj'' (\<lambda>simple_path w'.
               (let cmd = simplify_cmd mesh_path simple_path (str_ratio simplify_ratio);
                    w'' = w'\<lparr>spawned := spawned w' @ [cmd]\<rparr>
                in case fq_mesh_simplify cmd (fst (bio_read stream)) of
                     (read_outcome, wait_outcome) \<Rightarrow>
                       (case read_outcome of
                          None \<Rightarrow> None
                        | Some read_result \<Rightarrow>
                            (case wait_outcome of
                               None \<Rightarrow> None
                             | Some returncode \<Rightarrow>
                                 Some (if returncode \<noteq> 0
                                       then Inl (RuntimeError
                                                   (''fq-mesh-simplify returned an error code: '' @
                                                    str_int returncode))
                                       else read_result,
                                       w'')))))) w
         | _ \<Rightarrow> Some (Inl (AssertionError []), w)))"

section \<open>mesh_from_array\<close>

text \<open>\<^verbatim>\<open>a.transpose()\<close> reverses the order of the axes.\<close>

definition transpose3 :: "'a ndarray3 \<Rightarrow> 'a ndarray3" where
  "transpose3 a =
     (case shape3 a of (n0, n1, n2) \<Rightarrow>
        \<lparr>shape3 = (n2, n1, n0),
         data3 = map (\<lambda>k. map (\<lambda>j. map (\<lambda>i. at3 a i j k) [0..<n0]) [0..<n1]) [0..<n2]\<rparr>)"

text \<open>
  Lines 124 and 129-136: the box is turned from ZYX into XYZ order, every vertex
  coordinate is multiplied by \<^verbatim>\<open>downsample_factor\<close>, the first row of the box is added
  to every vertex, every face is reversed and 1 is added to every index. The arithmetic
  is that of the rational numbers; the rounding of the floating-point operations is not
  modelled.
\<close>

definition transform_buffers ::
  "(int \<times> int \<times> int) \<times> (int \<times> int \<times> int) \<Rightarrow> rat \<Rightarrow> vertex list \<Rightarrow> face list \<Rightarrow>
   vertex list \<times> face list" where
  "transform_buffers box_zyx downsample_factor vertices_xyz faces =
     (let box_xyz = (case box_zyx of (r0, r1) \<Rightarrow>
                       ((case r0 of (a, b, c) \<Rightarrow> (c, b, a)), (case r1 of (a, b, c) \<Rightarrow> (c, b, a))));
          vertices_xyz =
            map (\<lambda>(x, y, z). (x * downsample_factor, y * downsample_factor,
                               z * downsample_factor)) vertices_xyz;
          vertices_xyz =
            map (\<lambda>(x, y, z). case fst box_xyz of (b0, b1, b2) \<Rightarrow>
                   (x + of_int b0, y + of_int b1, z + of_int b2)) vertices_xyz;
          faces = map (\<lambda>(a, b, c). (c, b, a)) faces;
          faces = map (\<lambda>(a, b, c). (a + 1, b + 1, c + 1)) faces
      in (vertices_xyz, faces))"

text \<open>
  \<^verbatim>\<open>mesh_from_array\<close> (lines 114-145). The isosurface routine \<open>march\<close> of the
  package \<^verbatim>\<open>marching_cubes\<close> is a parameter. The result is \<open>None\<close> when the call
  never returns, which only \<open>simplify_mesh\<close> can cause.
\<close>

definition mesh_from_array ::
  "('a ndarray3 \<Rightarrow> nat \<Rightarrow> vertex list \<times> 'n \<times> face list) \<Rightarrow>
   (string \<Rightarrow> bytes \<Rightarrow> (error + bytes) option \<times> int option) \<Rightarrow> ('r \<Rightarrow> string) \<Rightarrow>
   'a ndarray3 \<Rightarrow> (int \<times> int \<times> int) \<times> (int \<times> int \<times> int) \<Rightarrow> rat \<Rightarrow> 'r option \<Rightarrow> nat \<Rightarrow>
   world \<Rightarrow> ((error + bytes) \<times> world) option" where
  "mesh_from_array march fq_mesh_simplify str_ratio volume_zyx box_zyx downsample_factor
       simplify_ratio smoothing_rounds w =
     (let volume_xyz = transpose3 volume_zyx
      in case march volume_xyz smoothing_rounds of (vertices_xyz, normals, faces) \<Rightarrow>
         case transform_buffers box_zyx downsample_factor vertices_xyz faces of
           (vertices_xyz, faces) \<Rightarrow>
             (let mesh_stream = generate_obj vertices_xyz faces
              in case simplify_ratio of
                   None \<Rightarrow> Some (Inr (fst (bio_read mesh_stream)), w)
                 | Some ratio \<Rightarrow>
                     simplify_mesh fq_mesh_simplify str_ratio (Stream mesh_stream) ratio w))"


text \<open>An empty file system, for the examples.\<close>

definition world0 :: world where
  "world0 = \<lparr>fs = Map.empty, next_tmp = 0, spawned = []\<rparr>"

text \<open>The volume of the specification's first scenario: 3 x 3 x 3, one voxel at (1,1,1).\<close>

definition single_voxel :: "int ndarray3" where
  "single_voxel =
     \<lparr>shape3 = (3, 3, 3),
      data3 = [[[0, 0, 0], [0, 0, 0], [0, 0, 0]],
               [[0, 0, 0], [0, 1, 0], [0, 0, 0]],
               [[0, 0, 0], [0, 0, 0], [0, 0, 0]]]\<rparr>"

definition zero_volume :: "int ndarray3" where
  "zero_volume =
     \<lparr>shape3 = (2, 2, 2),
      data3 = [[[0, 0], [0, 0]], [[0, 0], [0, 0]]]\<rparr>"

section \<open>Facts about the bounding box\<close>

lemma raising_Inl [simp]: "raising (Inl e) f = Inl e"
  by (simp add: raising_def)

lemma raising_Inr [simp]: "raising (Inr v) f = f v"
  by (simp add: raising_def)

lemma py_min_Nil: "py_min [] = Inl (ValueError ''min() arg is an empty sequence'')"
  by (simp add: py_min_def)

lemma py_min_eq: "xs \<noteq> [] \<Longrightarrow> py_min xs = Inr (Min (set xs))"
  by (cases xs) (simp_all add: py_min_def Min.set_eq_fold [symmetric])

lemma py_max_eq: "xs \<noteq> [] \<Longrightarrow> py_max xs = Inr (Max (set xs))"
  by (cases xs) (simp_all add: py_max_def Max.set_eq_fold [symmetric])

lemma findBBDimensions_nonempty:
  assumes "xs \<noteq> []" "ys \<noteq> []" "zs \<noteq> []"
  shows "findBBDimensions (xs, ys, zs) =
           Inr ([Min (set xs), Max (set xs) + 1, Min (set ys), Max (set ys) + 1,
                 Min (set zs), Max (set zs) + 1],
                [Max (set xs) - Min (set xs), Max (set ys) - Min (set ys),
                 Max (set zs) - Min (set zs)])"
  using assms by (simp add: findBBDimensions_def py_min_eq py_max_eq)

lemma set_argwhere_gt0:
  "shape3 a = (n0, n1, n2) \<Longrightarrow>
   set (argwhere_gt0 a) = {(i, j, k). i < n0 \<and> j < n1 \<and> k < n2 \<and> at3 a i j k > 0}"
  by (auto simp: argwhere_gt0_def)

lemma argwhere_gt0_single_voxel: "argwhere_gt0 single_voxel = [(1, 1, 1)]"
  by (simp add: argwhere_gt0_def single_voxel_def at3_def upt_rec [of _ "numeral _"])

lemma argwhere_gt0_zero_volume: "argwhere_gt0 zero_volume = []"
  by (simp add: argwhere_gt0_def zero_volume_def at3_def upt_rec [of _ "numeral _"])

text \<open>
  On non-empty index lists the second value is, on each axis, one less than the
  exclusive maximum minus the minimum of the box returned with it.
\<close>

lemma findBBDimensions_dimensions_one_less:
  assumes "xs \<noteq> []" "ys \<noteq> []" "zs \<noteq> []"
  shows "\<exists>box dims. findBBDimensions (xs, ys, zs) = Inr (box, dims) \<and>
           dims ! 0 = box ! 1 - box ! 0 - 1 \<and>
           dims ! 1 = box ! 3 - box ! 2 - 1 \<and>
           dims ! 2 = box ! 5 - box ! 4 - 1"
  by (simp add: findBBDimensions_nonempty [OF assms])

text \<open>
  Claim C5. The second value returned by \<open>findBBDimensions\<close> is said to be the extent
  of the returned box, exclusive maximum minus minimum, on each axis. On the volume with
  the single voxel (1,1,1) the function returns the box [1,2,1,2,1,2], whose extent is 1
  on each axis, together with the second value [0,0,0].
\<close>

theorem findBBDimensions_single_voxel:
  "findBBDimensions (np_where_gt0 single_voxel) = Inr ([1, 2, 1, 2, 1, 2], [0, 0, 0])"
  by (simp add: np_where_gt0_def argwhere_gt0_single_voxel findBBDimensions_def
      py_min_def py_max_def)

text \<open>
  Claim C6. When no voxel of the volume is greater than zero, the index lists are empty
  and \<open>findBBDimensions\<close> raises the \<^verbatim>\<open>ValueError\<close> of \<^verbatim>\<open>min\<close> instead of
  returning a box.
\<close>

theorem findBBDimensions_empty_volume:
  assumes "shape3 v = (n0, n1, n2)"
    and "\<forall>i<n0. \<forall>j<n1. \<forall>k<n2. \<not> at3 v i j k > 0"
  shows "findBBDimensions (np_where_gt0 v) =
           Inl (ValueError ''min() arg is an empty sequence'')"
proof -
  have "set (argwhere_gt0 v) = {}"
    using assms by (auto simp: set_argwhere_gt0)
  then have "argwhere_gt0 v = []"
    by simp
  then show ?thesis
    by (simp add: np_where_gt0_def findBBDimensions_def py_min_Nil)
qed

theorem findBBDimensions_empty_volume_witness:
  "shape3 zero_volume = (2, 2, 2) \<and>
   findBBDimensions (np_where_gt0 zero_volume) =
     Inl (ValueError ''min() arg is an empty sequence'')"
proof -
  have s: "shape3 zero_volume = (2, 2, 2)"
    by (simp add: zero_volume_def)
  have z: "\<forall>i<2. \<forall>j<2. \<forall>k<2. \<not> at3 zero_volume i j k > 0"
    by (simp add: zero_volume_def at3_def less_Suc_eq numeral_2_eq_2 all_conj_distrib)
  show ?thesis
    using findBBDimensions_empty_volume [OF s z] s by (intro conjI)
qed

lemma Min_map_le: "p \<in> set idx \<Longrightarrow> Min (set (map f idx)) \<le> (f p :: int)"
  by simp

lemma Max_map_ge: "p \<in> set idx \<Longrightarrow> (f p :: int) < Max (set (map f idx)) + 1"
proof -
  assume "p \<in> set idx"
  then have "f p \<le> Max (set (map f idx))"
    by simp
  then show ?thesis
    by linarith
qed

lemma Min_map_attained: "idx \<noteq> [] \<Longrightarrow> \<exists>p \<in> set idx. (f p :: int) = Min (set (map f idx))"
proof -
  assume "idx \<noteq> []"
  then have "Min (set (map f idx)) \<in> set (map f idx)"
    by (intro Min_in) simp_all
  then show ?thesis by auto
qed

lemma Max_map_attained: "idx \<noteq> [] \<Longrightarrow> \<exists>p \<in> set idx. (f p :: int) = Max (set (map f idx))"
proof -
  assume "idx \<noteq> []"
  then have "Max (set (map f idx)) \<in> set (map f idx)"
    by (intro Max_in) simp_all
  then show ?thesis by auto
qed

text \<open>
  Claim C4. For a volume with at least one voxel greater than zero, \<open>findBBDimensions\<close>
  applied to \<^verbatim>\<open>np.where(labelStack > 0)\<close> returns a box that contains every such voxel,
  with exclusive maxima, and each of its six faces holds such a voxel: the minimum and
  the maximum minus one are attained on every axis, so no face can be moved inwards.
\<close>

theorem findBBDimensions_covers_minimal:
  assumes sh: "shape3 v = (n0, n1, n2)"
    and fg: "i0 < n0" "j0 < n1" "k0 < n2" "at3 v i0 j0 k0 > 0"
  shows "\<exists>a0 a1 b0 b1 c0 c1 dims.
      findBBDimensions (np_where_gt0 v) = Inr ([a0, a1, b0, b1, c0, c1], dims) \<and>
      (\<forall>i<n0. \<forall>j<n1. \<forall>k<n2. at3 v i j k > 0 \<longrightarrow>
          a0 \<le> int i \<and> int i < a1 \<and> b0 \<le> int j \<and> int j < b1 \<and> c0 \<le> int k \<and> int k < c1) \<and>
      (\<exists>i<n0. \<exists>j<n1. \<exists>k<n2. at3 v i j k > 0 \<and> int i = a0) \<and>
      (\<exists>i<n0. \<exists>j<n1. \<exists>k<n2. at3 v i j k > 0 \<and> int i = a1 - 1) \<and>
      (\<exists>i<n0. \<exists>j<n1. \<exists>k<n2. at3 v i j k > 0 \<and> int j = b0) \<and>
      (\<exists>i<n0. \<exists>j<n1. \<exists>k<n2. at3 v i j k > 0 \<and> int j = b1 - 1) \<and>
      (\<exists>i<n0. \<exists>j<n1. \<exists>k<n2. at3 v i j k > 0 \<and> int k = c0) \<and>
      (\<exists>i<n0. \<exists>j<n1. \<exists>k<n2. at3 v i j k > 0 \<and> int k = c1 - 1)"
proof -
  define idx where "idx = argwhere_gt0 v"
  define fx where "fx = (\<lambda>(i, j :: nat, k :: nat). int i)"
  define fy where "fy = (\<lambda>(i :: nat, j, k :: nat). int j)"
  define fz where "fz = (\<lambda>(i :: nat, j :: nat, k). int k)"
  have F: "set idx = {(i, j, k). i < n0 \<and> j < n1 \<and> k < n2 \<and> at3 v i j k > 0}"
    unfolding idx_def by (rule set_argwhere_gt0 [OF sh])
  have mem: "(i0, j0, k0) \<in> set idx"
    using fg by (simp add: F)
  then have ne: "idx \<noteq> []"
    by auto
  have w: "np_where_gt0 v = (map fx idx, map fy idx, map fz idx)"
    by (simp add: np_where_gt0_def Let_def idx_def fx_def fy_def fz_def)
  have eq: "findBBDimensions (np_where_gt0 v) =
      Inr ([Min (set (map fx idx)), Max (set (map fx idx)) + 1,
            Min (set (map fy idx)), Max (set (map fy idx)) + 1,
            Min (set (map fz idx)), Max (set (map fz idx)) + 1],
           [Max (set (map fx idx)) - Min (set (map fx idx)),
            Max (set (map fy idx)) - Min (set (map fy idx)),
            Max (set (map fz idx)) - Min (set (map fz idx))])"
    unfolding w using ne by (intro findBBDimensions_nonempty) simp_all
  have cover: "\<forall>i<n0. \<forall>j<n1. \<forall>k<n2. at3 v i j k > 0 \<longrightarrow>
      Min (set (map fx idx)) \<le> int i \<and> int i < Max (set (map fx idx)) + 1 \<and>
      Min (set (map fy idx)) \<le> int j \<and> int j < Max (set (map fy idx)) + 1 \<and>
      Min (set (map fz idx)) \<le> int k \<and> int k < Max (set (map fz idx)) + 1"
  proof (intro allI impI)
    fix i j k
    assume "i < n0" "j < n1" "k < n2" "at3 v i j k > 0"
    then have p: "(i, j, k) \<in> set idx"
      by (simp add: F)
    show "Min (set (map fx idx)) \<le> int i \<and> int i < Max (set (map fx idx)) + 1 \<and>
      Min (set (map fy idx)) \<le> int j \<and> int j < Max (set (map fy idx)) + 1 \<and>
      Min (set (map fz idx)) \<le> int k \<and> int k < Max (set (map fz idx)) + 1"
      using Min_map_le [OF p, of fx] Max_map_ge [OF p, of fx]
        Min_map_le [OF p, of fy] Max_map_ge [OF p, of fy]
        Min_map_le [OF p, of fz] Max_map_ge [OF p, of fz]
      by (simp add: fx_def fy_def fz_def)
  qed
  have att: "\<exists>i<n0. \<exists>j<n1. \<exists>k<n2. at3 v i j k > 0 \<and> f (i, j, k) = m"
    if "\<exists>p \<in> set idx. f p = m" for f :: "nat \<times> nat \<times> nat \<Rightarrow> int" and m
    using that unfolding F by auto
  have x0: "\<exists>i<n0. \<exists>j<n1. \<exists>k<n2. at3 v i j k > 0 \<and> int i = Min (set (map fx idx))"
    using att [OF Min_map_attained [OF ne, of fx]] by (simp add: fx_def)
  have x1: "\<exists>i<n0. \<exists>j<n1. \<exists>k<n2. at3 v i j k > 0 \<and> int i = Max (set (map fx idx)) + 1 - 1"
    using att [OF Max_map_attained [OF ne, of fx]] by (simp add: fx_def)
  have y0: "\<exists>i<n0. \<exists>j<n1. \<exists>k<n2. at3 v i j k > 0 \<and> int j = Min (set (map fy idx))"
    using att [OF Min_map_attained [OF ne, of fy]] by (simp add: fy_def)
  have y1: "\<exists>i<n0. \<exists>j<n1. \<exists>k<n2. at3 v i j k > 0 \<and> int j = Max (set (map fy idx)) + 1 - 1"
    using att [OF Max_map_attained [OF ne, of fy]] by (simp add: fy_def)
  have z0: "\<exists>i<n0. \<exists>j<n1. \<exists>k<n2. at3 v i j k > 0 \<and> int k = Min (set (map fz idx))"
    using att [OF Min_map_attained [OF ne, of fz]] by (simp add: fz_def)
  have z1: "\<exists>i<n0. \<exists>j<n1. \<exists>k<n2. at3 v i j k > 0 \<and> int k = Max (set (map fz idx)) + 1 - 1"
    using att [OF Max_map_attained [OF ne, of fz]] by (simp add: fz_def)
  show ?thesis
    using eq cover x0 x1 y0 y1 z0 z1 by blast
qed

theorem findBBDimensions_covers_minimal_witness:
  "shape3 single_voxel = (3, 3, 3) \<and> (1::nat) < 3 \<and> at3 single_voxel 1 1 1 > 0 \<and>
   (\<exists>a0 a1 b0 b1 c0 c1 dims.
      findBBDimensions (np_where_gt0 single_voxel) = Inr ([a0, a1, b0, b1, c0, c1], dims) \<and>
      (\<forall>i<3. \<forall>j<3. \<forall>k<3. at3 single_voxel i j k > 0 \<longrightarrow>
          a0 \<le> int i \<and> int i < a1 \<and> b0 \<le> int j \<and> int j < b1 \<and> c0 \<le> int k \<and> int k < c1) \<and>
      (\<exists>i<3. \<exists>j<3. \<exists>k<3. at3 single_voxel i j k > 0 \<and> int i = a0) \<and>
      (\<exists>i<3. \<exists>j<3. \<exists>k<3. at3 single_voxel i j k > 0 \<and> int i = a1 - 1) \<and>
      (\<exists>i<3. \<exists>j<3. \<exists>k<3. at3 single_voxel i j k > 0 \<and> int j = b0) \<and>
      (\<exists>i<3. \<exists>j<3. \<exists>k<3. at3 single_voxel i j k > 0 \<and> int j = b1 - 1) \<and>
      (\<exists>i<3. \<exists>j<3. \<exists>k<3. at3 single_voxel i j k > 0 \<and> int k = c0) \<and>
      (\<exists>i<3. \<exists>j<3. \<exists>k<3. at3 single_voxel i j k > 0 \<and> int k = c1 - 1))"
proof -
  have s: "shape3 single_voxel = (3, 3, 3)"
    by (simp add: single_voxel_def)
  have l: "(1::nat) < 3"
    by simp
  have f: "at3 single_voxel 1 1 1 > 0"
    by (simp add: single_voxel_def at3_def)
  show ?thesis
    using s l f findBBDimensions_covers_minimal [OF s l l l f] by (intro conjI)
qed

section \<open>Facts about cropping and padding\<close>

lemma wf3_np_zeros: "wf3 (np_zeros (n0, n1, n2))"
  by (simp add: wf3_def np_zeros_def)

lemma at3_np_zeros: "i < n0 \<Longrightarrow> j < n1 \<Longrightarrow> k < n2 \<Longrightarrow> at3 (np_zeros (n0, n1, n2)) i j k = False"
  by (simp add: at3_def np_zeros_def)

lemma wf3_nth:
  assumes "wf3 a" "shape3 a = (n0, n1, n2)"
  shows "length (data3 a) = n0"
    and "i < n0 \<Longrightarrow> length (data3 a ! i) = n1"
    and "i < n0 \<Longrightarrow> j < n1 \<Longrightarrow> length (data3 a ! i ! j) = n2"
proof -
  from assms show n0: "length (data3 a) = n0"
    by (simp add: wf3_def)
  have P: "\<forall>p \<in> set (data3 a). length p = n1 \<and> (\<forall>r \<in> set p. length r = n2)"
    using assms by (simp add: wf3_def)
  show n1: "length (data3 a ! i) = n1" if "i < n0" for i
    using that P n0 by (simp add: nth_mem)
  show "length (data3 a ! i ! j) = n2" if "i < n0" "j < n1" for i j
  proof -
    have "data3 a ! i \<in> set (data3 a)"
      using that n0 by simp
    moreover have "data3 a ! i ! j \<in> set (data3 a ! i)"
      using that n1 by simp
    ultimately show ?thesis
      using P by blast
  qed
qed

lemma wf3_I:
  assumes "shape3 a = (n0, n1, n2)" "length (data3 a) = n0"
    and "\<And>i. i < n0 \<Longrightarrow> length (data3 a ! i) = n1"
    and "\<And>i j. i < n0 \<Longrightarrow> j < n1 \<Longrightarrow> length (data3 a ! i ! j) = n2"
  shows "wf3 a"
  using assms by (auto simp: wf3_def in_set_conv_nth)

lemma np_index_nat: "i < n \<Longrightarrow> np_index n (int i) = Inr i"
  by (simp add: np_index_def)

lemma setitem3_in_range:
  assumes wf: "wf3 a" and sh: "shape3 a = (n0, n1, n2)"
    and r: "i < n0" "j < n1" "k < n2"
  shows "\<exists>a'. setitem3 a (int i, int j, int k) x = Inr a' \<and> wf3 a' \<and> shape3 a' = (n0, n1, n2) \<and>
           (\<forall>i'<n0. \<forall>j'<n1. \<forall>k'<n2.
              at3 a' i' j' k' = (if (i', j', k') = (i, j, k) then x else at3 a i' j' k'))"
proof -
  define a' where
    "a' = a\<lparr>data3 := (data3 a)[i := (data3 a ! i)[j := (data3 a ! i ! j)[k := x]]]\<rparr>"
  have e: "setitem3 a (int i, int j, int k) x = Inr a'"
    using r by (simp add: setitem3_def sh np_index_nat a'_def)
  have s': "shape3 a' = (n0, n1, n2)"
    by (simp add: a'_def sh)
  note L = wf3_nth [OF wf sh]
  have w': "wf3 a'"
  proof (rule wf3_I [OF s'])
    show "length (data3 a') = n0"
      by (simp add: a'_def L)
    show "length (data3 a' ! i') = n1" if "i' < n0" for i'
      using that r by (simp add: a'_def L nth_list_update)
    show "length (data3 a' ! i' ! j') = n2" if "i' < n0" "j' < n1" for i' j'
      using that r by (simp add: a'_def L nth_list_update)
  qed
  have "at3 a' i' j' k' = (if (i', j', k') = (i, j, k) then x else at3 a i' j' k')"
    if "i' < n0" "j' < n1" "k' < n2" for i' j' k'
    using that r by (auto simp: a'_def at3_def L nth_list_update)
  with e s' w' show ?thesis
    by blast
qed

lemma setitem_points_in_range:
  assumes "wf3 a" "shape3 a = (n0, n1, n2)"
    and "\<forall>(i, j, k) \<in> set ps. i < n0 \<and> j < n1 \<and> k < n2"
  shows "\<exists>a'. setitem_points a (map (\<lambda>(i, j, k). (int i, int j, int k)) ps) x = Inr a' \<and>
           wf3 a' \<and> shape3 a' = (n0, n1, n2) \<and>
           (\<forall>i<n0. \<forall>j<n1. \<forall>k<n2.
              at3 a' i j k = (if (i, j, k) \<in> set ps then x else at3 a i j k))"
  using assms
proof (induction ps arbitrary: a)
  case Nil
  then show ?case by simp
next
  case (Cons p ps)
  obtain i j k where p: "p = (i, j, k)"
    by (cases p) auto
  from Cons.prems(3) p have r: "i < n0" "j < n1" "k < n2"
    by auto
  from setitem3_in_range [OF Cons.prems(1,2) r, of x]
  obtain a1 where a1: "setitem3 a (int i, int j, int k) x = Inr a1" "wf3 a1"
    "shape3 a1 = (n0, n1, n2)"
    "\<forall>i'<n0. \<forall>j'<n1. \<forall>k'<n2.
        at3 a1 i' j' k' = (if (i', j', k') = (i, j, k) then x else at3 a i' j' k')"
    by blast
  from Cons.prems(3) have rest: "\<forall>(i, j, k) \<in> set ps. i < n0 \<and> j < n1 \<and> k < n2"
    by simp
  from Cons.IH [OF a1(2,3) rest]
  obtain a2 where a2: "setitem_points a1 (map (\<lambda>(i, j, k). (int i, int j, int k)) ps) x = Inr a2"
    "wf3 a2" "shape3 a2 = (n0, n1, n2)"
    "\<forall>i<n0. \<forall>j<n1. \<forall>k<n2.
        at3 a2 i j k = (if (i, j, k) \<in> set ps then x else at3 a1 i j k)"
    by blast
  have "setitem_points a (map (\<lambda>(i, j, k). (int i, int j, int k)) (p # ps)) x = Inr a2"
    by (simp add: p a1(1) a2(1))
  moreover have "\<forall>i'<n0. \<forall>j'<n1. \<forall>k'<n2.
      at3 a2 i' j' k' = (if (i', j', k') \<in> set (p # ps) then x else at3 a i' j' k')"
    using a1(4) a2(4) by (auto simp: p)
  ultimately show ?case
    using a2(2,3) by blast
qed

lemma zip3_same:
  "zip (map f xs) (zip (map g xs) (map h xs)) = map (\<lambda>p. (f p, g p, h p)) xs"
  by (induction xs) simp_all

lemma blankImg_points:
  "blankImg w =
     setitem_points (np_zeros (case shape3 w of (n0, n1, n2) \<Rightarrow> (n0 + 2, n1 + 2, n2 + 2)))
       (map (\<lambda>(i, j, k). (int i, int j, int k)) (map (\<lambda>(i, j, k). (i + 1, j + 1, k + 1)) (argwhere_gt0 w)))
       True"
  by (simp add: blankImg_def np_where_gt0_def Let_def zip3_same case_prod_unfold o_def add.commute)

lemma blankImg_characterised:
  assumes sh: "shape3 w = (n0, n1, n2)"
  shows "\<exists>p. blankImg w = Inr p \<and> wf3 p \<and> shape3 p = (n0 + 2, n1 + 2, n2 + 2) \<and>
           (\<forall>i<n0 + 2. \<forall>j<n1 + 2. \<forall>k<n2 + 2.
              at3 p i j k =
                (1 \<le> i \<and> i \<le> n0 \<and> 1 \<le> j \<and> j \<le> n1 \<and> 1 \<le> k \<and> k \<le> n2 \<and>
                 at3 w (i - 1) (j - 1) (k - 1) > 0))"
proof -
  let ?ps = "map (\<lambda>(i, j, k). (i + 1, j + 1, k + 1)) (argwhere_gt0 w)"
  have S: "set ?ps = {(i + 1, j + 1, k + 1) | i j k. i < n0 \<and> j < n1 \<and> k < n2 \<and> at3 w i j k > 0}"
    by (auto simp: set_argwhere_gt0 [OF sh] image_iff)
  have R: "\<forall>(i, j, k) \<in> set ?ps. i < n0 + 2 \<and> j < n1 + 2 \<and> k < n2 + 2"
    unfolding S by auto
  have Z: "shape3 (np_zeros (n0 + 2, n1 + 2, n2 + 2)) = (n0 + 2, n1 + 2, n2 + 2)"
    by (simp add: np_zeros_def)
  from setitem_points_in_range [OF wf3_np_zeros Z R, of True]
  obtain p where p: "setitem_points (np_zeros (n0 + 2, n1 + 2, n2 + 2))
        (map (\<lambda>(i, j, k). (int i, int j, int k)) ?ps) True = Inr p"
    "wf3 p" "shape3 p = (n0 + 2, n1 + 2, n2 + 2)"
    "\<forall>i<n0 + 2. \<forall>j<n1 + 2. \<forall>k<n2 + 2.
        at3 p i j k = (if (i, j, k) \<in> set ?ps then True
                       else at3 (np_zeros (n0 + 2, n1 + 2, n2 + 2)) i j k)"
    by blast
  have b: "blankImg w = Inr p"
    using p(1) by (simp add: blankImg_points sh)
  have mem: "((i, j, k) \<in> set ?ps) =
      (1 \<le> i \<and> i \<le> n0 \<and> 1 \<le> j \<and> j \<le> n1 \<and> 1 \<le> k \<and> k \<le> n2 \<and>
       at3 w (i - 1) (j - 1) (k - 1) > 0)" for i j k
  proof
    assume "(i, j, k) \<in> set ?ps"
    then show "1 \<le> i \<and> i \<le> n0 \<and> 1 \<le> j \<and> j \<le> n1 \<and> 1 \<le> k \<and> k \<le> n2 \<and>
       at3 w (i - 1) (j - 1) (k - 1) > 0"
      unfolding S by auto
  next
    assume h: "1 \<le> i \<and> i \<le> n0 \<and> 1 \<le> j \<and> j \<le> n1 \<and> 1 \<le> k \<and> k \<le> n2 \<and>
       at3 w (i - 1) (j - 1) (k - 1) > 0"
    then have "i = (i - 1) + 1 \<and> j = (j - 1) + 1 \<and> k = (k - 1) + 1 \<and>
        i - 1 < n0 \<and> j - 1 < n1 \<and> k - 1 < n2 \<and> at3 w (i - 1) (j - 1) (k - 1) > 0"
      by auto
    then show "(i, j, k) \<in> set ?ps"
      unfolding S by blast
  qed
  have "\<forall>i<n0 + 2. \<forall>j<n1 + 2. \<forall>k<n2 + 2.
      at3 p i j k =
        (1 \<le> i \<and> i \<le> n0 \<and> 1 \<le> j \<and> j \<le> n1 \<and> 1 \<le> k \<and> k \<le> n2 \<and>
         at3 w (i - 1) (j - 1) (k - 1) > 0)"
  proof (intro allI impI)
    fix i j k
    assume r: "i < n0 + 2" "j < n1 + 2" "k < n2 + 2"
    with p(4) have "at3 p i j k = (if (i, j, k) \<in> set ?ps then True
                       else at3 (np_zeros (n0 + 2, n1 + 2, n2 + 2)) i j k)"
      by blast
    also have "\<dots> = ((i, j, k) \<in> set ?ps)"
      using r by (simp only: at3_np_zeros if_True if_False split: if_splits) simp
    finally show "at3 p i j k =
        (1 \<le> i \<and> i \<le> n0 \<and> 1 \<le> j \<and> j \<le> n1 \<and> 1 \<le> k \<and> k \<le> n2 \<and>
         at3 w (i - 1) (j - 1) (k - 1) > 0)"
      by (simp only: mem)
  qed
  with b p(2,3) show ?thesis
    by blast
qed

lemma slice_bound_le: "slice_bound n i \<le> n"
proof (cases "i < 0")
  case True
  then have "nat (max 0 (i + int n)) \<le> n"
    by linarith
  with True show ?thesis
    by (simp add: slice_bound_def)
next
  case False
  then show ?thesis
    by (simp add: slice_bound_def)
qed

lemma length_py_slice: "length (py_slice a b xs) = slice_len (length xs) a b"
  using slice_bound_le [of "length xs" b] by (simp add: py_slice_def slice_len_def)

lemma nth_py_slice:
  "i < slice_len (length xs) a b \<Longrightarrow> py_slice a b xs ! i = xs ! (slice_bound (length xs) a + i)"
  using slice_bound_le [of "length xs" b] by (simp add: py_slice_def slice_len_def)

lemma slice_in_bounds:
  "0 \<le> a \<Longrightarrow> a \<le> b \<Longrightarrow> b \<le> int n \<Longrightarrow>
   slice_bound n a = nat a \<and> slice_len n a b = nat (b - a)"
  by (auto simp: slice_bound_def slice_len_def)

lemma slice_len_bound: "i < slice_len n a b \<Longrightarrow> slice_bound n a + i < n"
  using slice_bound_le [of n b] by (simp add: slice_len_def)

lemma crop_window_characterised:
  assumes wf: "wf3 v" and sh: "shape3 v = (n0, n1, n2)"
  shows "wf3 (crop_window v [a0, a1, b0, b1, c0, c1])"
    and "shape3 (crop_window v [a0, a1, b0, b1, c0, c1]) =
           (slice_len n0 a0 a1, slice_len n1 b0 b1, slice_len n2 c0 c1)"
    and "i < slice_len n0 a0 a1 \<Longrightarrow> j < slice_len n1 b0 b1 \<Longrightarrow> k < slice_len n2 c0 c1 \<Longrightarrow>
         at3 (crop_window v [a0, a1, b0, b1, c0, c1]) i j k =
           at3 v (slice_bound n0 a0 + i) (slice_bound n1 b0 + j) (slice_bound n2 c0 + k)"
proof -
  let ?w = "crop_window v [a0, a1, b0, b1, c0, c1]"
  note L = wf3_nth [OF wf sh]
  have d: "data3 ?w = map (\<lambda>plane. map (\<lambda>row. py_slice c0 c1 row) (py_slice b0 b1 plane))
                     (py_slice a0 a1 (data3 v))"
    by (simp add: crop_window_def sh)
  show s: "shape3 ?w = (slice_len n0 a0 a1, slice_len n1 b0 b1, slice_len n2 c0 c1)"
    by (simp add: crop_window_def sh)
  have l0: "length (data3 ?w) = slice_len n0 a0 a1"
    by (simp add: d length_py_slice L)
  have p0: "data3 ?w ! i = map (\<lambda>row. py_slice c0 c1 row) (py_slice b0 b1 (data3 v ! (slice_bound n0 a0 + i)))"
    if "i < slice_len n0 a0 a1" for i
    using that by (simp add: d length_py_slice L nth_py_slice)
  have l1: "length (data3 ?w ! i) = slice_len n1 b0 b1" if "i < slice_len n0 a0 a1" for i
    using that slice_len_bound [OF that] by (simp add: p0 length_py_slice L)
  have p1: "data3 ?w ! i ! j =
      py_slice c0 c1 (data3 v ! (slice_bound n0 a0 + i) ! (slice_bound n1 b0 + j))"
    if "i < slice_len n0 a0 a1" "j < slice_len n1 b0 b1" for i j
    using that slice_len_bound [OF that(1)]
    by (simp add: p0 length_py_slice L nth_py_slice)
  have l2: "length (data3 ?w ! i ! j) = slice_len n2 c0 c1"
    if "i < slice_len n0 a0 a1" "j < slice_len n1 b0 b1" for i j
    using that slice_len_bound [OF that(1)] slice_len_bound [OF that(2)]
    by (simp add: p1 length_py_slice L)
  show "wf3 ?w"
    by (rule wf3_I [OF s l0 l1 l2])
  show "at3 ?w i j k =
           at3 v (slice_bound n0 a0 + i) (slice_bound n1 b0 + j) (slice_bound n2 c0 + k)"
    if "i < slice_len n0 a0 a1" "j < slice_len n1 b0 b1" "k < slice_len n2 c0 c1"
    using that slice_len_bound [OF that(1)] slice_len_bound [OF that(2)]
    by (simp add: at3_def p1 nth_py_slice L)
qed

text \<open>
  Claim C7. For every volume and every box, the array built by lines 157-165 is two
  voxels larger than the cropped window on each axis, holds at interior offset (1,1,1)
  exactly the voxels of the window that are greater than zero, and is false at index 0
  and at the last index of every axis. The window is the Python slice of the volume,
  whose bounds are clamped to the volume; for a box that lies inside the volume its
  extent on each axis is the maximum minus the minimum of the box.
\<close>

theorem crop_and_pad:
  assumes wf: "wf3 v" and sh: "shape3 v = (n0, n1, n2)"
  shows "\<exists>w p d0 d1 d2.
      w = crop_window v [a0, a1, b0, b1, c0, c1] \<and> wf3 w \<and> shape3 w = (d0, d1, d2) \<and>
      d0 = slice_len n0 a0 a1 \<and> d1 = slice_len n1 b0 b1 \<and> d2 = slice_len n2 c0 c1 \<and>
      (0 \<le> a0 \<and> a0 \<le> a1 \<and> a1 \<le> int n0 \<longrightarrow> d0 = nat (a1 - a0)) \<and>
      (0 \<le> b0 \<and> b0 \<le> b1 \<and> b1 \<le> int n1 \<longrightarrow> d1 = nat (b1 - b0)) \<and>
      (0 \<le> c0 \<and> c0 \<le> c1 \<and> c1 \<le> int n2 \<longrightarrow> d2 = nat (c1 - c0)) \<and>
      (\<forall>i<d0. \<forall>j<d1. \<forall>k<d2.
         at3 w i j k =
           at3 v (slice_bound n0 a0 + i) (slice_bound n1 b0 + j) (slice_bound n2 c0 + k)) \<and>
      blankImg w = Inr p \<and> wf3 p \<and> shape3 p = (d0 + 2, d1 + 2, d2 + 2) \<and>
      (\<forall>i<d0. \<forall>j<d1. \<forall>k<d2. at3 p (i + 1) (j + 1) (k + 1) = (at3 w i j k > 0)) \<and>
      (\<forall>i<d0 + 2. \<forall>j<d1 + 2. \<forall>k<d2 + 2.
         i = 0 \<or> i = d0 + 1 \<or> j = 0 \<or> j = d1 + 1 \<or> k = 0 \<or> k = d2 + 1 \<longrightarrow>
         \<not> at3 p i j k)"
proof -
  define w where "w = crop_window v [a0, a1, b0, b1, c0, c1]"
  define d0 where "d0 = slice_len n0 a0 a1"
  define d1 where "d1 = slice_len n1 b0 b1"
  define d2 where "d2 = slice_len n2 c0 c1"
  note C = crop_window_characterised [OF wf sh, where ?a0.0 = a0 and ?a1.0 = a1 and ?b0.0 = b0
      and ?b1.0 = b1 and ?c0.0 = c0 and ?c1.0 = c1, folded w_def d0_def d1_def d2_def]
  from blankImg_characterised [OF C(2)]
  obtain p where p: "blankImg w = Inr p" "wf3 p" "shape3 p = (d0 + 2, d1 + 2, d2 + 2)"
    "\<forall>i<d0 + 2. \<forall>j<d1 + 2. \<forall>k<d2 + 2.
        at3 p i j k =
          (1 \<le> i \<and> i \<le> d0 \<and> 1 \<le> j \<and> j \<le> d1 \<and> 1 \<le> k \<and> k \<le> d2 \<and>
           at3 w (i - 1) (j - 1) (k - 1) > 0)"
    by blast
  have interior: "\<forall>i<d0. \<forall>j<d1. \<forall>k<d2. at3 p (i + 1) (j + 1) (k + 1) = (at3 w i j k > 0)"
    using p(4) by simp
  have border: "\<forall>i<d0 + 2. \<forall>j<d1 + 2. \<forall>k<d2 + 2.
         i = 0 \<or> i = d0 + 1 \<or> j = 0 \<or> j = d1 + 1 \<or> k = 0 \<or> k = d2 + 1 \<longrightarrow>
         \<not> at3 p i j k"
    using p(4) by auto
  have content: "\<forall>i<d0. \<forall>j<d1. \<forall>k<d2.
         at3 w i j k =
           at3 v (slice_bound n0 a0 + i) (slice_bound n1 b0 + j) (slice_bound n2 c0 + k)"
    using C(3) by blast
  have e0: "0 \<le> a0 \<and> a0 \<le> a1 \<and> a1 \<le> int n0 \<longrightarrow> d0 = nat (a1 - a0)"
    by (simp add: d0_def slice_in_bounds)
  have e1: "0 \<le> b0 \<and> b0 \<le> b1 \<and> b1 \<le> int n1 \<longrightarrow> d1 = nat (b1 - b0)"
    by (simp add: d1_def slice_in_bounds)
  have e2: "0 \<le> c0 \<and> c0 \<le> c1 \<and> c1 \<le> int n2 \<longrightarrow> d2 = nat (c1 - c0)"
    by (simp add: d2_def slice_in_bounds)
  show ?thesis
    using w_def C(1,2) d0_def d1_def d2_def e0 e1 e2 content p(1,2,3) interior border
    by (intro exI conjI)
qed

lemma findBBDimensions_at_single_voxel:
  "findBBDimensions (np_where_gt0 single_voxel) = Inr ([1, 2, 1, 2, 1, 2], [0, 0, 0])"
  by (simp add: np_where_gt0_def argwhere_gt0_single_voxel findBBDimensions_def
      py_min_def py_max_def)

theorem crop_and_pad_witness:
  "wf3 single_voxel \<and> shape3 single_voxel = (3, 3, 3) \<and>
   (\<exists>w p d0 d1 d2.
      w = crop_window single_voxel [1, 2, 1, 2, 1, 2] \<and> wf3 w \<and> shape3 w = (d0, d1, d2) \<and>
      d0 = slice_len 3 1 2 \<and> d1 = slice_len 3 1 2 \<and> d2 = slice_len 3 1 2 \<and>
      (0 \<le> (1::int) \<and> (1::int) \<le> 2 \<and> 2 \<le> int 3 \<longrightarrow> d0 = nat (2 - 1)) \<and>
      (0 \<le> (1::int) \<and> (1::int) \<le> 2 \<and> 2 \<le> int 3 \<longrightarrow> d1 = nat (2 - 1)) \<and>
      (0 \<le> (1::int) \<and> (1::int) \<le> 2 \<and> 2 \<le> int 3 \<longrightarrow> d2 = nat (2 - 1)) \<and>
      (\<forall>i<d0. \<forall>j<d1. \<forall>k<d2.
         at3 w i j k =
           at3 single_voxel (slice_bound 3 1 + i) (slice_bound 3 1 + j) (slice_bound 3 1 + k)) \<and>
      blankImg w = Inr p \<and> wf3 p \<and> shape3 p = (d0 + 2, d1 + 2, d2 + 2) \<and>
      (\<forall>i<d0. \<forall>j<d1. \<forall>k<d2. at3 p (i + 1) (j + 1) (k + 1) = (at3 w i j k > 0)) \<and>
      (\<forall>i<d0 + 2. \<forall>j<d1 + 2. \<forall>k<d2 + 2.
         i = 0 \<or> i = d0 + 1 \<or> j = 0 \<or> j = d1 + 1 \<or> k = 0 \<or> k = d2 + 1 \<longrightarrow>
         \<not> at3 p i j k))"
proof -
  have w: "wf3 single_voxel"
    by (simp add: wf3_def single_voxel_def)
  have s: "shape3 single_voxel = (3, 3, 3)"
    by (simp add: single_voxel_def)
  show ?thesis
    using w s crop_and_pad [OF w s, where ?a0.0 = 1 and ?a1.0 = 2 and ?b0.0 = 1
      and ?b1.0 = 2 and ?c0.0 = 1 and ?c1.0 = 2]
    by (intro conjI)
qed

lemma crop_window_single_voxel:
  "crop_window single_voxel [1, 2, 1, 2, 1, 2] = \<lparr>shape3 = (1, 1, 1), data3 = [[[1]]]\<rparr>"
  by (simp add: crop_window_def single_voxel_def py_slice_def slice_len_def slice_bound_def)

lemma blankImg_single_voxel:
  "blankImg \<lparr>shape3 = (1, 1, 1), data3 = [[[1]]]\<rparr> =
     Inr \<lparr>shape3 = (3, 3, 3),
          data3 = [[[False, False, False], [False, False, False], [False, False, False]],
                   [[False, False, False], [False, True, False], [False, False, False]],
                   [[False, False, False], [False, False, False], [False, False, False]]]\<rparr>"
  by (simp add: blankImg_def np_where_gt0_def argwhere_gt0_def at3_def np_zeros_def
      setitem3_def np_index_def numeral_3_eq_3)

lemma calcMeshWithCrop_blankImg_single_voxel:
  "calcMeshWithCrop_blankImg single_voxel =
     Inr \<lparr>shape3 = (3, 3, 3),
          data3 = [[[False, False, False], [False, False, False], [False, False, False]],
                   [[False, False, False], [False, True, False], [False, False, False]],
                   [[False, False, False], [False, False, False], [False, False, False]]]\<rparr>"
  by (simp only: calcMeshWithCrop_blankImg_def findBBDimensions_at_single_voxel raising_Inr
      case_prod_conv crop_window_single_voxel blankImg_single_voxel)

section \<open>Facts about generate_obj\<close>

lemma bio_write_at_end:
  "pos s = length (buf s) \<Longrightarrow>
   bio_write s b = \<lparr>buf = buf s @ b, pos = length (buf s @ b)\<rparr>"
  by (simp add: bio_write_def)

lemma fold_bio_write:
  assumes "\<And>p mb. g p mb = bio_write mb (f p)"
  shows "pos s = length (buf s) \<Longrightarrow>
         fold g xs s = \<lparr>buf = buf s @ concat (map f xs), pos = length (buf s @ concat (map f xs))\<rparr>"
proof (induction xs arbitrary: s)
  case Nil
  then show ?case by simp
next
  case (Cons x xs)
  have "pos (bio_write s (f x)) = length (buf (bio_write s (f x)))"
    using Cons.prems by (simp add: bio_write_at_end)
  from Cons.IH [OF this] show ?case
    using Cons.prems by (simp add: assms bio_write_at_end)
qed

lemma generate_obj_eq:
  "generate_obj vts fcs =
     \<lparr>buf = ''# OBJ file\<newline>'' @
            concat (map (\<lambda>(x, y, z). ''v '' @ fmt7f x @ '' '' @ fmt7f y @ '' '' @ fmt7f z @
                                      ''\<newline>'') vts) @
            concat (map (\<lambda>(v1, v2, v3). ''f '' @ str_int v1 @ '' '' @ str_int v2 @ '' '' @
                                         str_int v3 @ '' \<newline>'') fcs),
      pos = 0\<rparr>"
proof -
  let ?fv = "\<lambda>(x, y, z). ''v '' @ fmt7f x @ '' '' @ fmt7f y @ '' '' @ fmt7f z @ ''\<newline>''"
  let ?ff = "\<lambda>(v1, v2, v3). ''f '' @ str_int v1 @ '' '' @ str_int v2 @ '' '' @
                                         str_int v3 @ '' \<newline>''"
  let ?gv = "\<lambda>(x, y, z) mb.
      bio_write mb (''v '' @ fmt7f x @ '' '' @ fmt7f y @ '' '' @ fmt7f z @ ''\<newline>'')"
  let ?gf = "\<lambda>(v1, v2, v3) mb.
      bio_write mb (''f '' @ str_int v1 @ '' '' @ str_int v2 @ '' '' @ str_int v3 @ '' \<newline>'')"
  define s0 where "s0 = bio_write (BytesIO []) ''# OBJ file\<newline>''"
  have s0: "s0 = \<lparr>buf = ''# OBJ file\<newline>'', pos = length ''# OBJ file\<newline>''\<rparr>"
    by (simp add: s0_def bio_write_def BytesIO_def)
  have gv: "\<And>p mb. ?gv p mb = bio_write mb (?fv p)"
    by (simp add: case_prod_unfold)
  have gf: "\<And>p mb. ?gf p mb = bio_write mb (?ff p)"
    by (simp add: case_prod_unfold)
  define s1 where "s1 = fold ?gv vts s0"
  have s1: "s1 = \<lparr>buf = buf s0 @ concat (map ?fv vts), pos = length (buf s0 @ concat (map ?fv vts))\<rparr>"
    unfolding s1_def by (rule fold_bio_write [of ?gv ?fv, OF gv]) (simp add: s0)
  define s2 where "s2 = fold ?gf fcs s1"
  have s2: "s2 = \<lparr>buf = buf s1 @ concat (map ?ff fcs), pos = length (buf s1 @ concat (map ?ff fcs))\<rparr>"
    unfolding s2_def by (rule fold_bio_write [of ?gf ?ff, OF gf]) (simp add: s1)
  have "generate_obj vts fcs = bio_seek s2 0"
    by (simp add: generate_obj_def Let_def s2_def s1_def s0_def)
  also have "\<dots> = \<lparr>buf = buf s0 @ concat (map ?fv vts) @ concat (map ?ff fcs), pos = 0\<rparr>"
    by (simp add: bio_seek_def s2 s1)
  finally show ?thesis
    by (simp add: s0)
qed














section \<open>The decimal rendering determines the integer\<close>

lemma digit_inj:
  "a < 10 \<Longrightarrow> b < 10 \<Longrightarrow> ''0123456789'' ! a = ''0123456789'' ! b \<Longrightarrow> a = b"
proof -
  assume a: "a < 10" and b: "b < 10" and e: "''0123456789'' ! a = ''0123456789'' ! b"
  have d: "distinct ''0123456789''"
    by simp
  have "a < length ''0123456789''" "b < length ''0123456789''"
    using a b by simp_all
  with d e show "a = b"
    by (simp only: nth_eq_iff_index_eq)
qed

lemma str_nat_small: "n < 10 \<Longrightarrow> str_nat n = [''0123456789'' ! n]"
  by (subst str_nat.simps) simp

lemma str_nat_large:
  "\<not> n < 10 \<Longrightarrow> str_nat n = str_nat (n div 10) @ [''0123456789'' ! (n mod 10)]"
  by (subst str_nat.simps) simp

lemma str_nat_nonempty: "str_nat n \<noteq> []"
  by (cases "n < 10") (simp_all add: str_nat_small str_nat_large)

lemma str_nat_inj: "str_nat n = str_nat m \<Longrightarrow> n = m"
proof (induction n arbitrary: m rule: str_nat.induct)
  case (1 n)
  show ?case
  proof (cases "n < 10")
    case n: True
    show ?thesis
    proof (cases "m < 10")
      case True
      with n "1.prems" show ?thesis
        by (simp add: str_nat_small digit_inj)
    next
      case False
      with n "1.prems" str_nat_nonempty [of "m div 10"] show ?thesis
        by (simp add: str_nat_small str_nat_large)
    qed
  next
    case n: False
    show ?thesis
    proof (cases "m < 10")
      case True
      with n "1.prems" str_nat_nonempty [of "n div 10"] show ?thesis
        by (simp add: str_nat_small str_nat_large)
    next
      case False
      with n "1.prems" have e: "str_nat (n div 10) = str_nat (m div 10)"
        and d: "''0123456789'' ! (n mod 10) = ''0123456789'' ! (m mod 10)"
        by (simp_all add: str_nat_large)
      from "1.IH" [OF n e] have q: "n div 10 = m div 10" .
      have r: "n mod 10 = m mod 10"
        by (rule digit_inj [OF _ _ d]) simp_all
      have "n = 10 * (n div 10) + n mod 10"
        by simp
      also have "\<dots> = 10 * (m div 10) + m mod 10"
        by (simp only: q r)
      also have "\<dots> = m"
        by simp
      finally show ?thesis .
    qed
  qed
qed

lemma str_nat_no_minus: "hd (str_nat n) \<noteq> CHR ''-''"
proof (induction n rule: str_nat.induct)
  case (1 n)
  show ?case
  proof (cases "n < 10")
    case True
    have "''0123456789'' ! n \<in> set ''0123456789''"
      by (rule nth_mem) (use True in simp)
    then have "''0123456789'' ! n \<noteq> CHR ''-''"
      by auto
    with True show ?thesis
      by (simp add: str_nat_small)
  next
    case False
    with "1.IH" str_nat_nonempty [of "n div 10"] show ?thesis
      by (simp add: str_nat_large)
  qed
qed

lemma str_int_inj: "str_int a = str_int b \<Longrightarrow> a = b"
proof -
  assume e: "str_int a = str_int b"
  have neg: "hd (str_int i) = CHR ''-'' \<longleftrightarrow> i < 0" for i
    using str_nat_no_minus [of "nat i"] by (simp add: str_int_def)
  from e have s: "a < 0 \<longleftrightarrow> b < 0"
    using neg [of a] neg [of b] by simp
  show "a = b"
  proof (cases "a < 0")
    case True
    with s e have "str_nat (nat (- a)) = str_nat (nat (- b))"
      by (simp add: str_int_def)
    then have "nat (- a) = nat (- b)"
      by (rule str_nat_inj)
    with True s show ?thesis
      by simp
  next
    case False
    with s e have "str_nat (nat a) = str_nat (nat b)"
      by (simp add: str_int_def)
    then have "nat a = nat b"
      by (rule str_nat_inj)
    with False s show ?thesis
      by simp
  qed
qed

text \<open>
  The message of the \<^verbatim>\<open>RuntimeError\<close> raised by \<open>simplify_mesh\<close> determines the exit
  code it was built from.
\<close>

lemma error_message_determines_code:
  "RuntimeError (''fq-mesh-simplify returned an error code: '' @ str_int a) =
   RuntimeError (''fq-mesh-simplify returned an error code: '' @ str_int b) \<Longrightarrow> a = b"
  by (simp add: str_int_inj)

section \<open>Facts about simplify_mesh and mesh_from_array\<close>

lemma read_generate_obj: "fst (bio_read (generate_obj vts fcs)) = buf (generate_obj vts fcs)"
  by (simp add: bio_read_def generate_obj_eq)

text \<open>
  Claim C3. With \<^verbatim>\<open>simplify_ratio=None\<close>, \<open>mesh_from_array\<close> does not call
  \<open>simplify_mesh\<close>: it returns, the operating system state is returned as it was
  given, and the result is the whole buffer of the stream that \<open>generate_obj\<close>
  produced from the transformed buffers.
\<close>

theorem mesh_from_array_no_simplify:
  "mesh_from_array march fq str_ratio volume_zyx box_zyx downsample_factor None smoothing_rounds w =
     (case march (transpose3 volume_zyx) smoothing_rounds of (vertices_xyz, normals, faces) \<Rightarrow>
      case transform_buffers box_zyx downsample_factor vertices_xyz faces of
        (vertices_xyz, faces) \<Rightarrow> Some (Inr (buf (generate_obj vertices_xyz faces)), w))"
  by (simp add: mesh_from_array_def Let_def read_generate_obj split: prod.splits)



text \<open>
  The whole of \<open>simplify_mesh\<close> on a stream: the two directories and the two pipes it
  creates, the command it starts, and its three ways out, together with the case in
  which it has none.
\<close>

lemma simplify_mesh_Stream:
  "simplify_mesh fq str_ratio (Stream st) ratio w =
     (let d0 = ''/tmp/tmp'' @ str_nat (next_tmp w);
          p0 = d0 @ ''/mesh.obj'';
          d1 = ''/tmp/tmp'' @ str_nat (next_tmp w + 1);
          p1 = d1 @ ''/simple.obj'';
          cmd = simplify_cmd p0 p1 (str_ratio ratio);
          w4 = w\<lparr>fs := (fs w)(d0 \<mapsto> Directory, p0 \<mapsto> Fifo, d1 \<mapsto> Directory, p1 \<mapsto> Fifo),
                 next_tmp := next_tmp w + 2,
                 spawned := spawned w @ [cmd]\<rparr>
      in case fq cmd (fst (bio_read st)) of
           (read_outcome, wait_outcome) \<Rightarrow>
             (case read_outcome of
                None \<Rightarrow> None
              | Some read_result \<Rightarrow>
                  (case wait_outcome of
                     None \<Rightarrow> None
                   | Some returncode \<Rightarrow>
                       if returncode \<noteq> 0
                       then Some (Inl (RuntimeError
                                         (''fq-mesh-simplify returned an error code: '' @
                                          str_int returncode)), w4)
                       else (case read_result of
                               Inl e \<Rightarrow> Some (Inl e, w4)
                             | Inr out \<Rightarrow>
                                 Some (Inr out,
                                       w4\<lparr>fs := (fs w4)(p1 := None, d1 := None, p0 := None,
                                                        d0 := None)\<rparr>)))))"
proof -
  define cmd where
    "cmd = simplify_cmd (''/tmp/tmp'' @ str_nat (next_tmp w) @ ''/mesh.obj'')
             (''/tmp/tmp'' @ str_nat (next_tmp w + 1) @ ''/simple.obj'') (str_ratio ratio)"
  obtain read_outcome wait_outcome
    where f: "fq cmd (fst (bio_read st)) = (read_outcome, wait_outcome)"
    by (cases "fq cmd (fst (bio_read st))") simp
  note defs = simplify_mesh_def temp_pipe_def mkdtemp_def mkfifo_def unlink_def rmdir_def
    Let_def
  show ?thesis
  proof (cases read_outcome)
    case None
    with f show ?thesis
      by (simp add: defs cmd_def)
  next
    case r: (Some read_result)
    show ?thesis
    proof (cases wait_outcome)
      case None
      with f r show ?thesis
        by (simp add: defs cmd_def)
    next
      case c: (Some returncode)
      show ?thesis
      proof (cases "returncode \<noteq> 0")
        case True
        with f r c show ?thesis
          by (simp add: defs cmd_def)
      next
        case False
        with f r c show ?thesis
          by (cases read_result) (simp_all add: defs cmd_def)
      qed
    qed
  qed
qed

text \<open>
  When the read of the response pipe comes to an end and the child exits with a code
  other than zero, \<open>simplify_mesh\<close> returns by raising the \<^verbatim>\<open>RuntimeError\<close> whose
  message ends in that code, whatever the read gave: bytes that were read are not
  returned.
\<close>

lemma simplify_mesh_nonzero_exit_after_read:
  assumes "mesh = Stream st \<or> mesh = Bytes b \<and> st = BytesIO b"
    and "fq (simplify_cmd (''/tmp/tmp'' @ str_nat (next_tmp w) @ ''/mesh.obj'')
               (''/tmp/tmp'' @ str_nat (next_tmp w + 1) @ ''/simple.obj'')
               (str_ratio ratio))
            (fst (bio_read st)) = (Some read_result, Some returncode)"
    and "returncode \<noteq> 0"
  shows "\<exists>w'. simplify_mesh fq str_ratio mesh ratio w =
           Some (Inl (RuntimeError (''fq-mesh-simplify returned an error code: '' @
                                    str_int returncode)), w')"
proof -
  have "simplify_mesh fq str_ratio mesh ratio w = simplify_mesh fq str_ratio (Stream st) ratio w"
    using assms(1) by (auto simp: simplify_mesh_def)
  then show ?thesis
    using assms(2,3) by (simp add: simplify_mesh_Stream Let_def)
qed

text \<open>
  When the read of the response pipe blocks, \<open>simplify_mesh\<close> does not return,
  whatever the exit code of the child.
\<close>

lemma simplify_mesh_blocked_read:
  assumes "mesh = Stream st \<or> mesh = Bytes b \<and> st = BytesIO b"
    and "fst (fq (simplify_cmd (''/tmp/tmp'' @ str_nat (next_tmp w) @ ''/mesh.obj'')
                    (''/tmp/tmp'' @ str_nat (next_tmp w + 1) @ ''/simple.obj'')
                    (str_ratio ratio))
                 (fst (bio_read st))) = None"
  shows "simplify_mesh fq str_ratio mesh ratio w = None"
proof -
  have "simplify_mesh fq str_ratio mesh ratio w = simplify_mesh fq str_ratio (Stream st) ratio w"
    using assms(1) by (auto simp: simplify_mesh_def)
  then show ?thesis
    using assms(2) by (simp add: simplify_mesh_Stream Let_def split: prod.splits)
qed

text \<open>
  Claim C2. \<open>simplify_mesh\<close> is said to fail with an error carrying the exit code
  whenever the child exits with a code other than zero. A child that exits with code
  127 without ever opening the response pipe, as the shell does when the program is not
  found, leaves \<^verbatim>\<open>open(simple_path, 'rb')\<close> on line 91 blocked: the check of the exit
  code on lines 94-96 is never reached and \<open>simplify_mesh\<close> does not return.
\<close>

theorem simplify_mesh_blocks_when_child_exits_early:
  "simplify_mesh (\<lambda>cmd inp. (None, Some 127)) (\<lambda>r. ''0.2'')
     (Bytes ''# OBJ file\<newline>'') () world0 = None"
  by (simp add: simplify_mesh_def temp_pipe_def mkdtemp_def mkfifo_def Let_def)

lemma simplify_mesh_success_removes:
  assumes "simplify_mesh fq str_ratio (Stream st) ratio w = Some (Inr out, w')"
  shows "fs w' (''/tmp/tmp'' @ str_nat (next_tmp w)) = None"
    and "fs w' (''/tmp/tmp'' @ str_nat (next_tmp w) @ ''/mesh.obj'') = None"
    and "fs w' (''/tmp/tmp'' @ str_nat (next_tmp w + 1)) = None"
    and "fs w' (''/tmp/tmp'' @ str_nat (next_tmp w + 1) @ ''/simple.obj'') = None"
  using assms
  by (auto simp: simplify_mesh_Stream Let_def
      split: prod.splits if_splits sum.splits option.splits)

lemma simplify_mesh_failure_keeps_pipe:
  assumes "simplify_mesh fq str_ratio (Stream st) ratio w = Some (Inl e, w')"
  shows "fs w' (''/tmp/tmp'' @ str_nat (next_tmp w + 1) @ ''/simple.obj'') = Some Fifo"
  using assms
  by (auto simp: simplify_mesh_Stream Let_def
      split: prod.splits if_splits sum.splits option.splits)

text \<open>
  Claim C1. Both pipes and both temporary directories are said to be removed on every
  exit path. Started on an empty file system with a child process that writes to the
  response pipe and exits with code 1, \<open>simplify_mesh\<close> raises and leaves the two
  directories and the two pipes behind.
\<close>

theorem simplify_mesh_failure_leaves_pipes:
  "(case simplify_mesh (\<lambda>cmd inp. (Some (Inr ''partial''), Some 1)) (\<lambda>r. ''0.2'')
           (Bytes ''# OBJ file\<newline>'') () world0 of
      None \<Rightarrow> False
    | Some (res, w) \<Rightarrow>
        res = Inl (RuntimeError ''fq-mesh-simplify returned an error code: 1'') \<and>
        fs w ''/tmp/tmp0'' = Some Directory \<and>
        fs w ''/tmp/tmp0/mesh.obj'' = Some Fifo \<and>
        fs w ''/tmp/tmp1'' = Some Directory \<and>
        fs w ''/tmp/tmp1/simple.obj'' = Some Fifo)"
  by (simp add: simplify_mesh_def temp_pipe_def mkdtemp_def mkfifo_def unlink_def rmdir_def
      Let_def world0_def str_nat.simps str_int_def BytesIO_def bio_read_def)

end
